theory Spec2Isabelle
  imports Main
begin

section \<open>Values of the host language\<close>

text \<open>
  The adapter is TypeScript: what \<^verbatim>\<open>JSON.parse\<close> returns is an arbitrary JavaScript value,
  and the cast \<^verbatim>\<open>as MinikubeInfo\<close> checks nothing at run time. The values are therefore
  modelled as they are at run time. A number keeps its literal text: the adapter never
  computes with one. An object keeps its members in the order of the text, the last one
  of a repeated key being the one a read finds.
\<close>

datatype js =
    JUndefined
  | JNull
  | JBool bool
  | JNum string
  | JStr string
  | JArr "js list"
  | JObj "(string \<times> js) list"

text \<open>
  What the code can throw or reject with: \<^verbatim>\<open>new Error(msg)\<close>, the \<^verbatim>\<open>SyntaxError\<close> of
  \<^verbatim>\<open>JSON.parse\<close>, the \<^verbatim>\<open>TypeError\<close> of reading a property of \<^verbatim>\<open>null\<close>, and a rejection of
  the promise of \<^verbatim>\<open>shell.exec\<close> (with the text that \<^verbatim>\<open>${err}\<close> renders).
\<close>

datatype error =
    Error string
  | SyntaxError
  | TypeError
  | Rejected string

definition digit :: "nat \<Rightarrow> char" where
  "digit n = ''0123456789'' ! n"

text \<open>The property key of an array index: its decimal numeral.\<close>

fun decimal :: "nat \<Rightarrow> string" where
  "decimal n = (if n < 10 then [digit n] else decimal (n div 10) @ [digit (n mod 10)])"

declare decimal.simps [simp del]

text \<open>
  The read \<^verbatim>\<open>obj[k]\<close>: a \<^verbatim>\<open>TypeError\<close> on \<^verbatim>\<open>null\<close> and \<^verbatim>\<open>undefined\<close>, \<^verbatim>\<open>undefined\<close> on a
  boolean, on a number and out of range, the one-character string on a string, the
  element on an array, the member of key \<^verbatim>\<open>"k"\<close> on an object.
\<close>

fun js_index :: "js \<Rightarrow> nat \<Rightarrow> error + js" where
  "js_index JUndefined k = Inl TypeError"
| "js_index JNull k = Inl TypeError"
| "js_index (JBool b) k = Inr JUndefined"
| "js_index (JNum n) k = Inr JUndefined"
| "js_index (JStr s) k = Inr (if k < length s then JStr [s ! k] else JUndefined)"
| "js_index (JArr xs) k = Inr (if k < length xs then xs ! k else JUndefined)"
| "js_index (JObj kvs) k =
     Inr (case map_of (rev kvs) (decimal k) of None \<Rightarrow> JUndefined | Some v \<Rightarrow> v)"

text \<open>\<^verbatim>\<open>lit !== v\<close> for a string literal: false only on that very string.\<close>

definition strict_neq :: "string \<Rightarrow> js \<Rightarrow> bool" where
  "strict_neq lit v = (v \<noteq> JStr lit)"

text \<open>
  A field or setting declared \<^verbatim>\<open>string\<close> that the caller may leave out: TypeScript does
  not keep \<^verbatim>\<open>undefined\<close> and \<^verbatim>\<open>null\<close> out at run time, and the code tests for them.
\<close>

datatype optstring = Undefined | Null | Given string

fun truthy :: "optstring \<Rightarrow> bool" where
  "truthy Undefined = False"
| "truthy Null = False"
| "truthy (Given s) = (s \<noteq> [])"

text \<open>The string a template or a \<^verbatim>\<open>+\<close> makes of the value.\<close>

fun to_string :: "optstring \<Rightarrow> string" where
  "to_string Undefined = ''undefined''"
| "to_string Null = ''null''"
| "to_string (Given s) = s"

section \<open>The data of the adapter\<close>

record MinikubeInfo =
  running :: bool
  cluster :: js
  kubectl :: js

record MinikubeOptions =
  vmDriver :: optstring
  additionalFlags :: optstring

datatype CheckPresentMode = Alert | Silent

record Context =
  binFound :: bool
  binPath :: string

record ShellResult =
  code :: int
  stdout :: string
  stderr :: string

datatype 'd Errorable = Succeeded 'd | Failed "string list"

record StatusBarItem =
  item_text :: string
  item_visible :: bool

section \<open>Collaborators, effects and state\<close>

text \<open>
  The collaborators are not part of the adapter: the configuration of the host, the
  binary locator \<^verbatim>\<open>binutil.checkForBinary\<close> (which receives the context and may update
  it), the shell, and \<^verbatim>\<open>JSON.parse\<close> (\<open>None\<close> is its \<^verbatim>\<open>SyntaxError\<close>). They are
  parameters, over a world \<open>'w\<close> that they read and change; every theorem holds for all
  of them. The shell answers with the value its promise settles to: \<open>Inl\<close> the text of a
  rejection, \<open>Inr\<close> the result. The last two fields are the payloads that
  \<^verbatim>\<open>fromShellExitCodeOnly\<close> attaches to its verdict.
\<close>

record ('w, 'd) env =
  getConfiguration :: "'w \<Rightarrow> string \<Rightarrow> string \<Rightarrow> optstring"
  checkForBinary ::
    "Context \<Rightarrow> optstring \<Rightarrow> string \<Rightarrow> string \<Rightarrow> string \<Rightarrow> bool \<Rightarrow> 'w \<Rightarrow> (bool \<times> Context) \<times> 'w"
  shell_exec :: "string \<Rightarrow> 'w \<Rightarrow> (string + ShellResult) \<times> 'w"
  JSON_parse :: "string \<Rightarrow> js option"
  diagnosticOf :: "ShellResult \<Rightarrow> 'd"
  errorsOf :: "ShellResult \<Rightarrow> string list"

text \<open>What the adapter itself asks of its collaborators and shows, in order.\<close>

datatype event =
    CheckForBinary bool
  | Exec string
  | ShowInformationMessage string
  | ShowWarningMessage string
  | ShowErrorMessage string

text \<open>
  A command launched by \<^verbatim>\<open>start\<close> or \<^verbatim>\<open>stop\<close> whose \<^verbatim>\<open>then\<close>/\<^verbatim>\<open>catch\<close> handlers have not
  run yet, with the value its promise settles to.
\<close>

datatype pending =
    StartExec "string + ShellResult"
  | StopExec "string + ShellResult"

text \<open>
  The state: the context of the adapter instance, the module-level status-bar item
  (\<open>None\<close> until \<^verbatim>\<open>getStatusBar\<close> creates it), the events so far, the detached
  continuations, and the world of the collaborators.
\<close>

record 'w state =
  "context" :: Context
  minikubeStatusBarItem :: "StatusBarItem option"
  trace :: "event list"
  detached :: "pending list"
  world :: 'w

definition emit :: "event \<Rightarrow> 'w state \<Rightarrow> 'w state" where
  "emit e s = s\<lparr>trace := trace s @ [e]\<rparr>"

definition exec :: "('w, 'd) env \<Rightarrow> string \<Rightarrow> 'w state \<Rightarrow> (string + ShellResult) \<times> 'w state" where
  "exec env cmd s =
     (case shell_exec env cmd (world s) of
        (r, w') \<Rightarrow> (r, s\<lparr>trace := trace s @ [Exec cmd], world := w'\<rparr>))"

text \<open>Two readings of a trace: the commands given to the shell, and the messages shown.\<close>

fun execs :: "event list \<Rightarrow> string list" where
  "execs [] = []"
| "execs (Exec c # es) = c # execs es"
| "execs (e # es) = execs es"

fun is_message :: "event \<Rightarrow> bool" where
  "is_message (ShowInformationMessage m) = True"
| "is_message (ShowWarningMessage m) = True"
| "is_message (ShowErrorMessage m) = True"
| "is_message e = False"

definition shown :: "event list \<Rightarrow> event list" where
  "shown es = filter is_message es"

fun is_locate :: "event \<Rightarrow> bool" where
  "is_locate (CheckForBinary a) = True"
| "is_locate e = False"

text \<open>How often the locator has been asked.\<close>

definition locator_calls :: "event list \<Rightarrow> nat" where
  "locator_calls es = length (filter is_locate es)"

text \<open>
  The state \<^verbatim>\<open>create\<close> builds: the constructor is given \<^verbatim>\<open>toolFound = false\<close> and sets the
  path to the bare name; the status-bar item does not exist yet.
\<close>

definition create :: "'w \<Rightarrow> 'w state" where
  "create w =
     \<lparr>context = \<lparr>binFound = False, binPath = ''minikube''\<rparr>,
      minikubeStatusBarItem = None, trace = [], detached = [], world = w\<rparr>"

section \<open>Presence of the binary\<close>

definition checkForMinikubeInternal ::
  "('w, 'd) env \<Rightarrow> CheckPresentMode \<Rightarrow> 'w state \<Rightarrow> bool \<times> 'w state" where
  "checkForMinikubeInternal env mode s =
     (let binName = ''minikube'';
          bin = getConfiguration env (world s) ''vs-kubernetes''
                  (''vs-kubernetes.'' @ binName @ ''-path'');
          inferFailedMessage = ''Could not find \"minikube\" binary.'';
          configuredFileMissingMessage = to_string bin @ '' does not exist!''
      in case checkForBinary env (context s) bin binName inferFailedMessage
                configuredFileMissingMessage (mode = Alert) (world s) of
           ((found, ctx'), w') \<Rightarrow>
             (found, s\<lparr>context := ctx',
                       trace := trace s @ [CheckForBinary (mode = Alert)],
                       world := w'\<rparr>))"

definition checkPresent ::
  "('w, 'd) env \<Rightarrow> CheckPresentMode \<Rightarrow> 'w state \<Rightarrow> bool \<times> 'w state" where
  "checkPresent env mode s =
     (if binFound (context s) then (True, s) else checkForMinikubeInternal env mode s)"

text \<open>
  Modelled from the spec: what the locator \<^verbatim>\<open>binutil.checkForBinary\<close>, which is not among
  the sources, does to the context it is given. The spec, of \<^verbatim>\<open>checkPresent\<close>: "Side effect:
  updates cached presence on success". So a locator that answers true hands back a
  context whose flag is set. Nothing else is assumed of it, and only where this predicate
  is a hypothesis.
\<close>

definition caches_success :: "('w, 'd) env \<Rightarrow> bool" where
  "caches_success env =
     (\<forall>ctx bin binName inferFailed fileMissing alertOnFail w.
        fst (fst (checkForBinary env ctx bin binName inferFailed fileMissing alertOnFail w)) \<longrightarrow>
        binFound (snd (fst (checkForBinary env ctx bin binName inferFailed fileMissing alertOnFail w))))"

text \<open>Several calls of \<^verbatim>\<open>checkPresent\<close> on one adapter instance, one after the other.\<close>

fun checkPresent_calls ::
  "('w, 'd) env \<Rightarrow> CheckPresentMode list \<Rightarrow> 'w state \<Rightarrow> bool list \<times> 'w state" where
  "checkPresent_calls env [] s = ([], s)"
| "checkPresent_calls env (m # ms) s =
     (case checkPresent env m s of
        (b, s') \<Rightarrow> (case checkPresent_calls env ms s' of (bs, s'') \<Rightarrow> (b # bs, s'')))"

section \<open>Status\<close>

definition statusCommand :: "string \<Rightarrow> string" where
  "statusCommand bin =
     bin @ '' status --format '[\"{{.MinikubeStatus}}\",\"{{.ClusterStatus}}\",\"{{.KubeconfigStatus}}\"]''
       @ [CHR 0x27]"

text \<open>
  The object literal of the success branch: the three reads, in order, the first error
  being the one thrown.
\<close>

definition statusOf :: "js \<Rightarrow> error + MinikubeInfo" where
  "statusOf obj =
     (case js_index obj 0 of
        Inl e \<Rightarrow> Inl e
      | Inr o0 \<Rightarrow>
          (case js_index obj 1 of
             Inl e \<Rightarrow> Inl e
           | Inr o1 \<Rightarrow>
               (case js_index obj 2 of
                  Inl e \<Rightarrow> Inl e
                | Inr o2 \<Rightarrow>
                    Inr \<lparr>running = strict_neq ''Stopped'' o0, cluster = o1, kubectl = o2\<rparr>)))"

text \<open>
  What \<^verbatim>\<open>minikubeStatus\<close> makes of the result of the command: the branch on
  \<^verbatim>\<open>result.stderr.length === 0\<close>, the parse, and the \<^verbatim>\<open>throw\<close> after the branch.
\<close>

definition statusResult :: "('w, 'd) env \<Rightarrow> ShellResult \<Rightarrow> error + MinikubeInfo" where
  "statusResult env result =
     (if length (stderr result) = 0 then
        (case JSON_parse env (stdout result) of
           None \<Rightarrow> Inl SyntaxError
         | Some obj \<Rightarrow> statusOf obj)
      else Inl (Error (''failed to get status: '' @ stderr result)))"

definition minikubeStatus ::
  "('w, 'd) env \<Rightarrow> 'w state \<Rightarrow> (error + MinikubeInfo) \<times> 'w state" where
  "minikubeStatus env s =
     (case checkPresent env Silent s of
        (False, s1) \<Rightarrow> (Inl (Error ''minikube executable could not be found!''), s1)
      | (True, s1) \<Rightarrow>
          (case exec env (statusCommand (binPath (context s1))) s1 of
             (Inl err, s2) \<Rightarrow> (Inl (Rejected err), s2)
           | (Inr result, s2) \<Rightarrow> (statusResult env result, s2)))"

section \<open>Runnable\<close>

text \<open>The \<^verbatim>\<open>succeeded\<close> field of an \<^verbatim>\<open>Errorable\<close>.\<close>

fun succeeded :: "'d Errorable \<Rightarrow> bool" where
  "succeeded (Succeeded d) = True"
| "succeeded (Failed es) = False"

text \<open>
  Modelled from the spec: \<^verbatim>\<open>fromShellExitCodeOnly\<close> of the wizard module, which is not
  among the sources. The spec: it "maps exit-code 0 to success, non-zero to failure,
  with no output parsing". The payloads of the two verdicts are not described; they are
  the parameters \<open>diagnosticOf\<close> and \<open>errorsOf\<close>.
\<close>

definition fromShellExitCodeOnly :: "('w, 'd) env \<Rightarrow> ShellResult \<Rightarrow> 'd Errorable" where
  "fromShellExitCodeOnly env sr =
     (if code sr = 0 then Succeeded (diagnosticOf env sr) else Failed (errorsOf env sr))"

definition isRunnableMinikube ::
  "('w, 'd) env \<Rightarrow> 'w state \<Rightarrow> (error + 'd Errorable) \<times> 'w state" where
  "isRunnableMinikube env s =
     (case checkPresent env Alert s of
        (False, s1) \<Rightarrow> (Inr (Failed [''Minikube is not installed'']), s1)
      | (True, s1) \<Rightarrow>
          (case exec env (binPath (context s1) @ '' help'') s1 of
             (Inl err, s2) \<Rightarrow> (Inl (Rejected err), s2)
           | (Inr sr, s2) \<Rightarrow> (Inr (fromShellExitCodeOnly env sr), s2)))"

section \<open>The status-bar item\<close>

definition getStatusBar :: "'w state \<Rightarrow> 'w state" where
  "getStatusBar s =
     (case minikubeStatusBarItem s of
        None \<Rightarrow> s\<lparr>minikubeStatusBarItem := Some \<lparr>item_text = [], item_visible = False\<rparr>\<rparr>
      | Some _ \<Rightarrow> s)"

definition item_update :: "(StatusBarItem \<Rightarrow> StatusBarItem) \<Rightarrow> 'w state \<Rightarrow> 'w state" where
  "item_update f s = s\<lparr>minikubeStatusBarItem := map_option f (minikubeStatusBarItem s)\<rparr>"

definition set_text :: "string \<Rightarrow> 'w state \<Rightarrow> 'w state" where
  "set_text t = item_update (\<lambda>i. i\<lparr>item_text := t\<rparr>)"

definition item_show :: "'w state \<Rightarrow> 'w state" where
  "item_show = item_update (\<lambda>i. i\<lparr>item_visible := True\<rparr>)"

definition item_hide :: "'w state \<Rightarrow> 'w state" where
  "item_hide = item_update (\<lambda>i. i\<lparr>item_visible := False\<rparr>)"

section \<open>Start and stop\<close>

definition startFlags :: "MinikubeOptions \<Rightarrow> string" where
  "startFlags options =
     (let flags = (if truthy (additionalFlags options)
                   then to_string (additionalFlags options) else [])
      in if truthy (vmDriver options) \<and> length (to_string (vmDriver options)) > 0
         then flags @ '' --vm-driver='' @ to_string (vmDriver options) @ '' ''
         else flags)"

definition startCommand :: "string \<Rightarrow> MinikubeOptions \<Rightarrow> string" where
  "startCommand bin options = bin @ '' '' @ startFlags options @ '' start''"

text \<open>
  \<^verbatim>\<open>startMinikube\<close> up to the point where its promise settles: \<open>Inr ()\<close> when it resolves,
  \<open>Inl e\<close> when an awaited call threw \<open>e\<close>. The command, when it is launched, is launched
  before that; its handlers are left in \<open>detached\<close>.
\<close>

definition startMinikube ::
  "('w, 'd) env \<Rightarrow> MinikubeOptions \<Rightarrow> 'w state \<Rightarrow> (error + unit) \<times> 'w state" where
  "startMinikube env options s =
     (case checkPresent env Alert s of
        (False, s1) \<Rightarrow> (Inr (), s1)
      | (True, s1) \<Rightarrow>
          (case minikubeStatus env (item_show (set_text ''minikube-starting'' (getStatusBar s1))) of
             (Inl e, s2) \<Rightarrow> (Inl e, s2)
           | (Inr status, s2) \<Rightarrow>
               if running status then
                 (Inr (), emit (ShowWarningMessage ''Minikube cluster is already started.'') s2)
               else
                 (case exec env (startCommand (binPath (context s2)) options) s2 of
                    (r, s3) \<Rightarrow> (Inr (), s3\<lparr>detached := detached s3 @ [StartExec r]\<rparr>))))"

definition stopMinikube :: "('w, 'd) env \<Rightarrow> 'w state \<Rightarrow> (error + unit) \<times> 'w state" where
  "stopMinikube env s =
     (case checkPresent env Alert s of
        (False, s1) \<Rightarrow> (Inr (), s1)
      | (True, s1) \<Rightarrow>
          (case minikubeStatus env (item_show (set_text ''minikube-stopping'' (getStatusBar s1))) of
             (Inl e, s2) \<Rightarrow> (Inl e, s2)
           | (Inr status, s2) \<Rightarrow>
               if \<not> running status then
                 (Inr (), emit (ShowWarningMessage ''Minikube cluster is already stopped.'') s2)
               else
                 (case exec env (binPath (context s2) @ '' stop'') s2 of
                    (r, s3) \<Rightarrow> (Inr (), s3\<lparr>detached := detached s3 @ [StopExec r]\<rparr>))))"

text \<open>The handlers of the launched command, run when its promise has settled.\<close>

fun completion :: "pending \<Rightarrow> 'w state \<Rightarrow> 'w state" where
  "completion (StartExec (Inr result)) s =
     (if code result = 0
      then set_text ''minikube-running'' (emit (ShowInformationMessage ''Cluster started.'') s)
      else item_hide (emit (ShowErrorMessage (''Failed to start cluster '' @ stderr result)) s))"
| "completion (StartExec (Inl err)) s =
     emit (ShowErrorMessage (''Failed to start cluster: '' @ err)) (item_hide s)"
| "completion (StopExec (Inr result)) s =
     (if code result = 0
      then item_hide (emit (ShowInformationMessage ''Cluster stopped.'') s)
      else item_hide (emit (ShowErrorMessage (''Error stopping cluster '' @ stderr result)) s))"
| "completion (StopExec (Inl err)) s =
     item_hide (emit (ShowErrorMessage (''Error stopping cluster: '' @ err)) s)"

text \<open>The event loop runs the oldest detached continuation.\<close>

definition settle :: "'w state \<Rightarrow> 'w state" where
  "settle s =
     (case detached s of
        [] \<Rightarrow> s
      | p # ps \<Rightarrow> completion p (s\<lparr>detached := ps\<rparr>))"

section \<open>An environment to run the adapter in\<close>

text \<open>
  A small world for the examples: whether the binary is installed, and what the shell
  answers to each command. Its locator finds the binary when it is installed and then
  records it in the context, as the spec says of the locator ("updates cached presence
  on success"); its shell rejects a command it has no answer for; its parser is the
  table of the values of \<^verbatim>\<open>JSON.parse\<close> at the outputs the examples use, any other text
  standing for one that is not JSON.
\<close>

record sim =
  installed :: bool
  replies :: "(string \<times> (string + ShellResult)) list"

definition sim_json :: "(string \<times> js) list" where
  "sim_json =
     [(''[\"Running\",\"Running\",\"Configured\"]'',
         JArr [JStr ''Running'', JStr ''Running'', JStr ''Configured'']),
      (''[\"Stopped\",\"\",\"\"]'', JArr [JStr ''Stopped'', JStr [], JStr []]),
      (''[]'', JArr []),
      (''null'', JNull)]"

definition sim_env :: "(sim, int) env" where
  "sim_env =
     \<lparr>getConfiguration = (\<lambda>w section key. Undefined),
      checkForBinary = (\<lambda>ctx bin binName inferFailed fileMissing alertOnFail w.
         ((installed w, if installed w then ctx\<lparr>binFound := True\<rparr> else ctx), w)),
      shell_exec = (\<lambda>cmd w.
         (case map_of (replies w) cmd of None \<Rightarrow> Inl ''spawn failed'' | Some r \<Rightarrow> r, w)),
      JSON_parse = map_of sim_json,
      diagnosticOf = code,
      errorsOf = (\<lambda>sr. [stderr sr])\<rparr>"

definition answers :: "int \<Rightarrow> string \<Rightarrow> string \<Rightarrow> string + ShellResult" where
  "answers c out err = Inr \<lparr>code = c, stdout = out, stderr = err\<rparr>"

text \<open>The binary installed, the status query answered by \<open>status\<close>, every other command by \<open>other\<close>.\<close>

definition sim_world :: "string + ShellResult \<Rightarrow> string + ShellResult \<Rightarrow> sim" where
  "sim_world status other =
     \<lparr>installed = True,
      replies = [(statusCommand ''minikube'', status),
                 (''minikube help'', other),
                 (''minikube  start'', other),
                 (''minikube --foo start'', other),
                 (''minikube stop'', other)]\<rparr>"

definition sim_absent :: sim where
  "sim_absent = \<lparr>installed = False, replies = []\<rparr>"

definition sim_running :: sim where
  "sim_running =
     sim_world (answers 0 ''[\"Running\",\"Running\",\"Configured\"]'' []) (answers 0 [] [])"

definition sim_stopped :: sim where
  "sim_stopped = sim_world (answers 0 ''[\"Stopped\",\"\",\"\"]'' []) (answers 0 [] [])"

text \<open>Status outputs that are not the three strings, and a status query that fails.\<close>

definition sim_mute :: sim where
  "sim_mute = sim_world (answers 0 [] []) (answers 0 [] [])"

definition sim_short :: sim where
  "sim_short = sim_world (answers 0 ''[]'' []) (answers 0 [] [])"

definition sim_failing :: sim where
  "sim_failing =
     sim_world (answers 1 ''[\"Running\",\"Running\",\"Configured\"]'' ''machine does not exist'')
       (answers 0 [] [])"

definition sim_null :: sim where
  "sim_null = sim_world (answers 0 ''null'' []) (answers 0 [] [])"

text \<open>The cluster stopped, and a shell whose other commands fail.\<close>

definition sim_crashing :: sim where
  "sim_crashing =
     sim_world (answers 0 ''[\"Stopped\",\"\",\"\"]'' []) (answers 1 [] ''out of memory'')"

lemmas sim_defs = sim_env_def create_def sim_world_def sim_running_def sim_stopped_def
  sim_absent_def sim_mute_def sim_short_def sim_failing_def sim_null_def sim_crashing_def answers_def sim_json_def
  checkPresent_def checkForMinikubeInternal_def exec_def statusCommand_def

section \<open>How each operation changes the state\<close>

lemma execs_append: "execs (xs @ ys) = execs xs @ execs ys"
  by (induction xs rule: execs.induct) simp_all

lemma shown_append: "shown (xs @ ys) = shown xs @ shown ys"
  by (simp add: shown_def)

lemma checkPresent_found: "binFound (context s) \<Longrightarrow> checkPresent env m s = (True, s)"
  by (simp add: checkPresent_def)

lemma checkPresent_frame:
  assumes "checkPresent env m s = (b, s')"
  shows "minikubeStatusBarItem s' = minikubeStatusBarItem s \<and> detached s' = detached s
         \<and> execs (trace s') = execs (trace s) \<and> shown (trace s') = shown (trace s)"
  using assms
  by (auto simp: checkPresent_def checkForMinikubeInternal_def Let_def execs_append shown_append
       shown_def split: if_splits prod.splits)

lemma exec_frame:
  assumes "exec env c s = (r, s')"
  shows "context s' = context s \<and> minikubeStatusBarItem s' = minikubeStatusBarItem s
         \<and> detached s' = detached s \<and> trace s' = trace s @ [Exec c]"
  using assms by (auto simp: exec_def split: prod.splits)

lemma minikubeStatus_frame:
  assumes "minikubeStatus env s = (r, s')"
  shows "minikubeStatusBarItem s' = minikubeStatusBarItem s \<and> detached s' = detached s
         \<and> shown (trace s') = shown (trace s)
         \<and> (\<forall>info. r = Inr info \<longrightarrow>
               execs (trace s') = execs (trace s) @ [statusCommand (binPath (context s'))])"
proof -
  obtain b s1 where cp: "checkPresent env Silent s = (b, s1)"
    by (cases "checkPresent env Silent s")
  note f1 = checkPresent_frame [OF cp]
  show ?thesis
  proof (cases b)
    case False
    with cp assms f1 show ?thesis by (auto simp: minikubeStatus_def)
  next
    case True
    obtain x s2 where ex: "exec env (statusCommand (binPath (context s1))) s1 = (x, s2)"
      by (cases "exec env (statusCommand (binPath (context s1))) s1")
    note f2 = exec_frame [OF ex]
    from True cp ex assms have "s' = s2" by (auto simp: minikubeStatus_def split: sum.splits)
    with f1 f2 show ?thesis by (simp add: execs_append shown_append shown_def)
  qed
qed

lemma minikubeStatus_result:
  assumes "checkPresent env Silent s = (True, s1)"
      and "exec env (statusCommand (binPath (context s1))) s1 = (Inr r, s2)"
  shows "minikubeStatus env s = (statusResult env r, s2)"
  using assms by (simp add: minikubeStatus_def)

lemma js_index_Inl:
  "js_index obj k = Inl e \<longleftrightarrow> (obj = JNull \<or> obj = JUndefined) \<and> e = TypeError"
  by (cases obj) auto

lemma statusOf_Inr:
  "(\<exists>info. statusOf obj = Inr info) \<longleftrightarrow> obj \<noteq> JNull \<and> obj \<noteq> JUndefined"
  by (cases obj) (auto simp: statusOf_def)

lemma statusCommand_not_start: "statusCommand b \<noteq> startCommand b' options"
proof
  assume "statusCommand b = startCommand b' options"
  then have "last (statusCommand b) = last (startCommand b' options)" by simp
  then show False by (simp add: statusCommand_def startCommand_def)
qed

lemma statusCommand_not_stop: "statusCommand b \<noteq> b' @ '' stop''"
proof
  assume "statusCommand b = b' @ '' stop''"
  then have "last (statusCommand b) = last (b' @ '' stop'')" by simp
  then show False by (simp add: statusCommand_def)
qed

lemma indicator_set:
  "minikubeStatusBarItem (item_show (set_text t (getStatusBar s))) =
     Some \<lparr>item_text = t, item_visible = True\<rparr>"
  by (simp add: item_show_def set_text_def item_update_def getStatusBar_def split: option.splits)

lemma indicator_frame:
  "trace (item_show (set_text t (getStatusBar s))) = trace s
   \<and> detached (item_show (set_text t (getStatusBar s))) = detached s
   \<and> context (item_show (set_text t (getStatusBar s))) = context s
   \<and> world (item_show (set_text t (getStatusBar s))) = world s"
  by (simp add: item_show_def set_text_def item_update_def getStatusBar_def split: option.splits)

lemma checkPresent_calls_found:
  "binFound (context s) \<Longrightarrow> checkPresent_calls env ms s = (replicate (length ms) True, s)"
  by (induction ms) (simp_all add: checkPresent_found)

lemma checkPresent_locates:
  "\<not> binFound (context s) \<Longrightarrow>
     locator_calls (trace (snd (checkPresent env m s))) = locator_calls (trace s) + 1"
  by (simp add: checkPresent_def checkForMinikubeInternal_def Let_def locator_calls_def
        split: prod.splits)

lemma checkPresent_calls_all_locate:
  "\<not> binFound (context (snd (checkPresent_calls env ms s))) \<Longrightarrow>
     locator_calls (trace (snd (checkPresent_calls env ms s))) = locator_calls (trace s) + length ms"
proof (induction ms arbitrary: s)
  case Nil
  then show ?case by simp
next
  case (Cons m ms)
  obtain b s' where c1: "checkPresent env m s = (b, s')" by (cases "checkPresent env m s")
  from Cons.prems c1 have fin: "\<not> binFound (context (snd (checkPresent_calls env ms s')))"
    by (simp split: prod.splits)
  have nf: "\<not> binFound (context s)"
  proof
    assume "binFound (context s)"
    from checkPresent_calls_found [OF this, of env "m # ms"] Cons.prems \<open>binFound (context s)\<close>
    show False by simp
  qed
  from checkPresent_locates [OF nf, of env m] c1
  have one: "locator_calls (trace s') = locator_calls (trace s) + 1" by simp
  from Cons.IH [OF fin] one c1 show ?case by (auto split: prod.splits)
qed

lemma checkPresent_caches:
  assumes "caches_success env" and "fst (checkPresent env m s)"
  shows "binFound (context (snd (checkPresent env m s)))"
proof (cases "binFound (context s)")
  case True
  then show ?thesis by (simp add: checkPresent_def)
next
  case False
  let ?bin = "getConfiguration env (world s) ''vs-kubernetes'' ''vs-kubernetes.minikube-path''"
  let ?r = "checkForBinary env (context s) ?bin ''minikube'' ''Could not find \"minikube\" binary.''
              (to_string ?bin @ '' does not exist!'') (m = Alert) (world s)"
  from False assms(2) have "fst (fst ?r)"
    by (simp add: checkPresent_def checkForMinikubeInternal_def Let_def split: prod.splits)
  with assms(1) have "binFound (snd (fst ?r))"
    unfolding caches_success_def by blast
  with False show ?thesis
    by (auto simp: checkPresent_def checkForMinikubeInternal_def Let_def split: prod.splits)
qed

lemma exec_context: "context (snd (exec env c s)) = context s"
  by (simp add: exec_def split: prod.splits)

lemma minikubeStatus_keeps_found:
  "binFound (context s) \<Longrightarrow> binFound (context (snd (minikubeStatus env s)))"
  using exec_context [of env "statusCommand (binPath (context s))" s]
  by (auto simp: minikubeStatus_def checkPresent_found split: prod.splits sum.splits)

lemma isRunnable_keeps_found:
  "binFound (context s) \<Longrightarrow> binFound (context (snd (isRunnableMinikube env s)))"
  using exec_context [of env "binPath (context s) @ '' help''" s]
  by (auto simp: isRunnableMinikube_def checkPresent_found split: prod.splits sum.splits)

lemma startMinikube_keeps_found:
  assumes "binFound (context s)"
  shows "binFound (context (snd (startMinikube env options s)))"
proof -
  let ?p = "item_show (set_text ''minikube-starting'' (getStatusBar s))"
  have p: "binFound (context ?p)" using assms indicator_frame [of "''minikube-starting''" s] by simp
  obtain r s2 where st: "minikubeStatus env ?p = (r, s2)" by (cases "minikubeStatus env ?p")
  from minikubeStatus_keeps_found [OF p, of env] st have f2: "binFound (context s2)" by simp
  show ?thesis
    using assms st f2 exec_context [of env "startCommand (binPath (context s2)) options" s2]
    by (auto simp: startMinikube_def checkPresent_found emit_def split: prod.splits sum.splits)
qed

lemma stopMinikube_keeps_found:
  assumes "binFound (context s)"
  shows "binFound (context (snd (stopMinikube env s)))"
proof -
  let ?p = "item_show (set_text ''minikube-stopping'' (getStatusBar s))"
  have p: "binFound (context ?p)" using assms indicator_frame [of "''minikube-stopping''" s] by simp
  obtain r s2 where st: "minikubeStatus env ?p = (r, s2)" by (cases "minikubeStatus env ?p")
  from minikubeStatus_keeps_found [OF p, of env] st have f2: "binFound (context s2)" by simp
  show ?thesis
    using assms st f2 exec_context [of env "binPath (context s2) @ '' stop''" s2]
    by (auto simp: stopMinikube_def checkPresent_found emit_def split: prod.splits sum.splits)
qed

lemma completion_context: "context (completion p s) = context s"
  by (induction p s rule: completion.induct)
     (simp_all add: emit_def set_text_def item_hide_def item_update_def)

lemma settle_context: "context (settle s) = context s"
  by (simp add: settle_def completion_context split: list.splits)






section \<open>Status: the running flag\<close>

text \<open>
  C1. When the binary is present, the status query settles with a result whose stderr is
  empty, and its stdout parses as an array of three strings, \<^verbatim>\<open>minikubeStatus\<close> returns a
  status whose \<open>running\<close> is true exactly when the first string is not \<^verbatim>\<open>Stopped\<close>; the
  other two strings are the cluster and kubeconfig states.
\<close>

theorem status_running_iff_not_Stopped:
  assumes "checkPresent env Silent s = (True, s1)"
      and "exec env (statusCommand (binPath (context s1))) s1 = (Inr r, s2)"
      and "stderr r = []"
      and "JSON_parse env (stdout r) = Some (JArr [JStr a, JStr b, JStr c])"
  shows "minikubeStatus env s =
           (Inr \<lparr>running = (a \<noteq> ''Stopped''), cluster = JStr b, kubectl = JStr c\<rparr>, s2)"
  using assms by (simp add: minikubeStatus_def statusResult_def statusOf_def strict_neq_def)

theorem status_running_iff_not_Stopped_witness:
  "minikubeStatus sim_env (create sim_running) =
     (Inr \<lparr>running = True, cluster = JStr ''Running'', kubectl = JStr ''Configured''\<rparr>,
      snd (exec sim_env (statusCommand ''minikube'')
             (snd (checkPresent sim_env Silent (create sim_running)))))
   \<and> minikubeStatus sim_env (create sim_stopped) =
       (Inr \<lparr>running = False, cluster = JStr [], kubectl = JStr []\<rparr>,
        snd (exec sim_env (statusCommand ''minikube'')
               (snd (checkPresent sim_env Silent (create sim_stopped)))))"
  using status_running_iff_not_Stopped [of sim_env "create sim_running"
     "snd (checkPresent sim_env Silent (create sim_running))"
     "\<lparr>code = 0, stdout = ''[\"Running\",\"Running\",\"Configured\"]'', stderr = []\<rparr>"
     "snd (exec sim_env (statusCommand ''minikube'')
            (snd (checkPresent sim_env Silent (create sim_running))))"
     "''Running''" "''Running''" "''Configured''"]
    status_running_iff_not_Stopped [of sim_env "create sim_stopped"
     "snd (checkPresent sim_env Silent (create sim_stopped))"
     "\<lparr>code = 0, stdout = ''[\"Stopped\",\"\",\"\"]'', stderr = []\<rparr>"
     "snd (exec sim_env (statusCommand ''minikube'')
            (snd (checkPresent sim_env Silent (create sim_stopped))))"
     "''Stopped''" "[]" "[]"]
  by (simp add: sim_defs)

section \<open>Status: the gate on stderr\<close>

text \<open>
  C2, as the code has it. With the binary present and the status query settled with a
  result, \<^verbatim>\<open>minikubeStatus\<close> returns what \<open>statusResult\<close> makes of that result, and the exit
  code plays no part in it. It can succeed only when stderr is empty. With stderr not
  empty it throws \<^verbatim>\<open>Error("failed to get status: " + stderr)\<close>, whatever stdout and the exit
  code are. With stderr empty it succeeds exactly when stdout parses to a value other
  than \<^verbatim>\<open>null\<close>; when stdout does not parse it throws the \<^verbatim>\<open>SyntaxError\<close> of the parse, and
  when stdout parses to \<^verbatim>\<open>null\<close> it throws the \<^verbatim>\<open>TypeError\<close> of the read \<^verbatim>\<open>obj[0]\<close>.
\<close>

theorem status_stderr_gate:
  assumes "checkPresent env Silent s = (True, s1)"
      and "exec env (statusCommand (binPath (context s1))) s1 = (Inr r, s2)"
  shows "minikubeStatus env s = (statusResult env r, s2)
       \<and> statusResult env (r\<lparr>code := c\<rparr>) = statusResult env r
       \<and> ((\<exists>info. statusResult env r = Inr info) \<longrightarrow> stderr r = [])
       \<and> (stderr r \<noteq> [] \<longrightarrow>
            statusResult env r = Inl (Error (''failed to get status: '' @ stderr r)))
       \<and> (stderr r = [] \<longrightarrow>
            ((\<exists>info. statusResult env r = Inr info) \<longleftrightarrow>
             (\<exists>obj. JSON_parse env (stdout r) = Some obj \<and> obj \<noteq> JNull \<and> obj \<noteq> JUndefined)))
       \<and> (stderr r = [] \<and> JSON_parse env (stdout r) = None \<longrightarrow>
            statusResult env r = Inl SyntaxError)
       \<and> (stderr r = [] \<and> (JSON_parse env (stdout r) = Some JNull
                            \<or> JSON_parse env (stdout r) = Some JUndefined) \<longrightarrow>
            statusResult env r = Inl TypeError)"
proof -
  have a: "minikubeStatus env s = (statusResult env r, s2)"
    using assms by (rule minikubeStatus_result)
  have b: "statusResult env (r\<lparr>code := c\<rparr>) = statusResult env r"
    by (simp add: statusResult_def)
  have c: "(\<exists>info. statusResult env r = Inr info) \<longrightarrow> stderr r = []"
    by (auto simp: statusResult_def split: if_splits)
  have d: "stderr r \<noteq> [] \<longrightarrow>
            statusResult env r = Inl (Error (''failed to get status: '' @ stderr r))"
    by (simp add: statusResult_def)
  have e: "stderr r = [] \<longrightarrow>
            ((\<exists>info. statusResult env r = Inr info) \<longleftrightarrow>
             (\<exists>obj. JSON_parse env (stdout r) = Some obj \<and> obj \<noteq> JNull \<and> obj \<noteq> JUndefined))"
    using statusOf_Inr by (auto simp: statusResult_def split: option.splits)
  have f: "stderr r = [] \<and> JSON_parse env (stdout r) = None \<longrightarrow>
            statusResult env r = Inl SyntaxError"
    by (simp add: statusResult_def)
  have g: "stderr r = [] \<and> (JSON_parse env (stdout r) = Some JNull
                            \<or> JSON_parse env (stdout r) = Some JUndefined) \<longrightarrow>
            statusResult env r = Inl TypeError"
    by (auto simp: statusResult_def statusOf_def)
  from a b c d e f g show ?thesis by blast
qed

theorem status_stderr_gate_witness:
  "minikubeStatus sim_env (create sim_failing) =
     (Inl (Error ''failed to get status: machine does not exist''),
      snd (exec sim_env (statusCommand ''minikube'')
             (snd (checkPresent sim_env Silent (create sim_failing)))))
   \<and> minikubeStatus sim_env (create sim_mute) =
       (Inl SyntaxError,
        snd (exec sim_env (statusCommand ''minikube'')
               (snd (checkPresent sim_env Silent (create sim_mute)))))
   \<and> minikubeStatus sim_env (create sim_null) =
       (Inl TypeError,
        snd (exec sim_env (statusCommand ''minikube'')
               (snd (checkPresent sim_env Silent (create sim_null)))))"
proof -
  have failing: "minikubeStatus sim_env (create sim_failing) =
     (Inl (Error ''failed to get status: machine does not exist''),
      snd (exec sim_env (statusCommand ''minikube'')
             (snd (checkPresent sim_env Silent (create sim_failing)))))"
    using status_stderr_gate [of sim_env "create sim_failing"
       "snd (checkPresent sim_env Silent (create sim_failing))"
       "\<lparr>code = 1, stdout = ''[\"Running\",\"Running\",\"Configured\"]'',
         stderr = ''machine does not exist''\<rparr>"
       "snd (exec sim_env (statusCommand ''minikube'')
              (snd (checkPresent sim_env Silent (create sim_failing))))" 0]
    by (simp add: sim_defs)
  have mute: "minikubeStatus sim_env (create sim_mute) =
       (Inl SyntaxError,
        snd (exec sim_env (statusCommand ''minikube'')
               (snd (checkPresent sim_env Silent (create sim_mute)))))"
    using status_stderr_gate [of sim_env "create sim_mute"
       "snd (checkPresent sim_env Silent (create sim_mute))"
       "\<lparr>code = 0, stdout = [], stderr = []\<rparr>"
       "snd (exec sim_env (statusCommand ''minikube'')
              (snd (checkPresent sim_env Silent (create sim_mute))))" 0]
    by (simp add: sim_defs)
  have null: "minikubeStatus sim_env (create sim_null) =
       (Inl TypeError,
        snd (exec sim_env (statusCommand ''minikube'')
               (snd (checkPresent sim_env Silent (create sim_null)))))"
    using status_stderr_gate [of sim_env "create sim_null"
       "snd (checkPresent sim_env Silent (create sim_null))"
       "\<lparr>code = 0, stdout = ''null'', stderr = []\<rparr>"
       "snd (exec sim_env (statusCommand ''minikube'')
              (snd (checkPresent sim_env Silent (create sim_null))))" 0]
    by (simp add: sim_defs)
  from failing mute null show ?thesis by simp
qed

text \<open>
  Empty stderr alone is not enough for success: with stderr and stdout both empty the
  parse throws.
\<close>

theorem status_empty_stderr_counterexample:
  "fst (exec sim_env (statusCommand ''minikube'') (create sim_mute)) =
     Inr \<lparr>code = 0, stdout = [], stderr = []\<rparr>
   \<and> JSON_parse sim_env [] = None
   \<and> fst (minikubeStatus sim_env (create sim_mute)) = Inl SyntaxError"
  by (simp add: sim_defs minikubeStatus_def statusResult_def)

section \<open>Status: output that is not three strings\<close>

text \<open>
  C3, as the code has it. With the binary present, the status query settled and stderr
  empty: when stdout is not JSON, \<^verbatim>\<open>minikubeStatus\<close> throws the \<^verbatim>\<open>SyntaxError\<close> of the parse;
  when stdout is the JSON \<^verbatim>\<open>null\<close>, it throws the \<^verbatim>\<open>TypeError\<close> of the first read; for every
  other parsed value, of whatever shape or arity, it returns a status made of the reads
  \<^verbatim>\<open>obj[0]\<close>, \<^verbatim>\<open>obj[1]\<close>, \<^verbatim>\<open>obj[2]\<close>, \<^verbatim>\<open>undefined\<close> where there is nothing to read, with
  \<open>running\<close> true unless \<^verbatim>\<open>obj[0]\<close> is the string \<^verbatim>\<open>Stopped\<close>.
\<close>

theorem status_malformed:
  assumes "checkPresent env Silent s = (True, s1)"
      and "exec env (statusCommand (binPath (context s1))) s1 = (Inr r, s2)"
      and "stderr r = []"
  shows "(JSON_parse env (stdout r) = None \<longrightarrow> minikubeStatus env s = (Inl SyntaxError, s2))
       \<and> (JSON_parse env (stdout r) = Some JNull \<longrightarrow> minikubeStatus env s = (Inl TypeError, s2))
       \<and> (\<forall>obj. JSON_parse env (stdout r) = Some obj \<and> obj \<noteq> JNull \<and> obj \<noteq> JUndefined \<longrightarrow>
            (\<exists>o0 o1 o2. js_index obj 0 = Inr o0 \<and> js_index obj 1 = Inr o1 \<and> js_index obj 2 = Inr o2
               \<and> minikubeStatus env s =
                   (Inr \<lparr>running = (o0 \<noteq> JStr ''Stopped''), cluster = o1, kubectl = o2\<rparr>, s2)))"
proof -
  have a: "minikubeStatus env s = (statusResult env r, s2)"
    using assms(1,2) by (rule minikubeStatus_result)
  have b: "JSON_parse env (stdout r) = None \<longrightarrow> statusResult env r = Inl SyntaxError"
    using assms(3) by (simp add: statusResult_def)
  have c: "JSON_parse env (stdout r) = Some JNull \<longrightarrow> statusResult env r = Inl TypeError"
    using assms(3) by (simp add: statusResult_def statusOf_def)
  have d: "\<exists>o0 o1 o2. js_index obj 0 = Inr o0 \<and> js_index obj 1 = Inr o1 \<and> js_index obj 2 = Inr o2
               \<and> statusResult env r =
                   Inr \<lparr>running = (o0 \<noteq> JStr ''Stopped''), cluster = o1, kubectl = o2\<rparr>"
    if "JSON_parse env (stdout r) = Some obj" "obj \<noteq> JNull" "obj \<noteq> JUndefined" for obj
    using that assms(3) by (cases obj) (simp_all add: statusResult_def statusOf_def strict_neq_def)
  from a b c d show ?thesis by auto
qed

theorem status_malformed_witness:
  "minikubeStatus sim_env (create sim_mute) =
     (Inl SyntaxError,
      snd (exec sim_env (statusCommand ''minikube'')
             (snd (checkPresent sim_env Silent (create sim_mute)))))"
  using status_malformed [of sim_env "create sim_mute"
     "snd (checkPresent sim_env Silent (create sim_mute))"
     "\<lparr>code = 0, stdout = [], stderr = []\<rparr>"
     "snd (exec sim_env (statusCommand ''minikube'')
            (snd (checkPresent sim_env Silent (create sim_mute))))"]
  by (simp add: sim_defs)

text \<open>
  An array of the wrong arity is not refused: for the output \<^verbatim>\<open>[]\<close> a status is returned,
  running, with both states \<^verbatim>\<open>undefined\<close>.
\<close>

theorem status_wrong_arity_counterexample:
  "fst (exec sim_env (statusCommand ''minikube'') (create sim_short)) =
     Inr \<lparr>code = 0, stdout = ''[]'', stderr = []\<rparr>
   \<and> JSON_parse sim_env ''[]'' = Some (JArr [])
   \<and> fst (minikubeStatus sim_env (create sim_short)) =
       Inr \<lparr>running = True, cluster = JUndefined, kubectl = JUndefined\<rparr>"
  by (simp add: sim_defs minikubeStatus_def statusResult_def statusOf_def strict_neq_def)

section \<open>Start: the command line\<close>




section \<open>Start and stop: the precheck\<close>

text \<open>
  C5. When the binary is present and the status precheck of \<^verbatim>\<open>startMinikube\<close> reports a
  running cluster, the call resolves; the only message it shows is the warning that the
  cluster is already started; the only command it gives to the shell is the status query,
  which is not the start command; nothing is left detached; and the status-bar item is
  as it was set before the precheck, visible with the text \<^verbatim>\<open>minikube-starting\<close>.
\<close>

theorem start_already_running:
  assumes "checkPresent env Alert s = (True, s1)"
      and "minikubeStatus env (item_show (set_text ''minikube-starting'' (getStatusBar s1))) =
             (Inr info, s2)"
      and "running info"
  shows "startMinikube env options s =
           (Inr (), emit (ShowWarningMessage ''Minikube cluster is already started.'') s2)
       \<and> shown (trace (snd (startMinikube env options s))) =
           shown (trace s) @ [ShowWarningMessage ''Minikube cluster is already started.'']
       \<and> execs (trace (snd (startMinikube env options s))) =
           execs (trace s) @ [statusCommand (binPath (context s2))]
       \<and> statusCommand (binPath (context s2)) \<noteq> startCommand (binPath (context s2)) options
       \<and> detached (snd (startMinikube env options s)) = detached s
       \<and> minikubeStatusBarItem (snd (startMinikube env options s)) =
           Some \<lparr>item_text = ''minikube-starting'', item_visible = True\<rparr>"
proof -
  let ?s1' = "item_show (set_text ''minikube-starting'' (getStatusBar s1))"
  have r: "startMinikube env options s =
           (Inr (), emit (ShowWarningMessage ''Minikube cluster is already started.'') s2)"
    using assms by (simp add: startMinikube_def)
  note f1 = checkPresent_frame [OF assms(1)]
  note f2 = minikubeStatus_frame [OF assms(2)]
  note f3 = indicator_frame [of "''minikube-starting''" s1]
  have sh: "shown (trace (emit (ShowWarningMessage ''Minikube cluster is already started.'') s2)) =
           shown (trace s) @ [ShowWarningMessage ''Minikube cluster is already started.'']"
    using f1 f2 f3 by (simp add: emit_def shown_append) (simp add: shown_def)
  have ex: "execs (trace (emit (ShowWarningMessage ''Minikube cluster is already started.'') s2)) =
           execs (trace s) @ [statusCommand (binPath (context s2))]"
    using f1 f2 f3 by (simp add: emit_def execs_append)
  have de: "detached (emit (ShowWarningMessage ''Minikube cluster is already started.'') s2) =
           detached s"
    using f1 f2 f3 by (simp add: emit_def)
  have it: "minikubeStatusBarItem (emit (ShowWarningMessage ''Minikube cluster is already started.'') s2) =
           Some \<lparr>item_text = ''minikube-starting'', item_visible = True\<rparr>"
    using f2 indicator_set [of "''minikube-starting''" s1] by (simp add: emit_def)
  from r sh ex de it statusCommand_not_start show ?thesis by simp
qed

theorem start_already_running_witness:
  "fst (startMinikube sim_env \<lparr>vmDriver = Undefined, additionalFlags = Undefined\<rparr> (create sim_running)) = Inr ()
   \<and> shown (trace (snd (startMinikube sim_env \<lparr>vmDriver = Undefined, additionalFlags = Undefined\<rparr>
                           (create sim_running)))) =
       [ShowWarningMessage ''Minikube cluster is already started.'']
   \<and> execs (trace (snd (startMinikube sim_env \<lparr>vmDriver = Undefined, additionalFlags = Undefined\<rparr>
                           (create sim_running)))) =
       [statusCommand ''minikube'']
   \<and> detached (snd (startMinikube sim_env \<lparr>vmDriver = Undefined, additionalFlags = Undefined\<rparr>
                       (create sim_running))) = []
   \<and> minikubeStatusBarItem (snd (startMinikube sim_env \<lparr>vmDriver = Undefined, additionalFlags = Undefined\<rparr>
                                    (create sim_running))) =
       Some \<lparr>item_text = ''minikube-starting'', item_visible = True\<rparr>"
  using start_already_running [of sim_env "create sim_running"
     "snd (checkPresent sim_env Alert (create sim_running))"
     "\<lparr>running = True, cluster = JStr ''Running'', kubectl = JStr ''Configured''\<rparr>"
     "snd (minikubeStatus sim_env (item_show (set_text ''minikube-starting''
            (getStatusBar (snd (checkPresent sim_env Alert (create sim_running)))))))"
     "\<lparr>vmDriver = Undefined, additionalFlags = Undefined\<rparr>"]
  by (simp add: sim_defs minikubeStatus_def statusResult_def statusOf_def strict_neq_def
       item_show_def set_text_def item_update_def getStatusBar_def emit_def shown_def)

text \<open>
  C6. When the binary is present and the status precheck of \<^verbatim>\<open>stopMinikube\<close> reports a
  cluster that is not running, the call resolves; the only message it shows is the
  warning that the cluster is already stopped; the only command it gives to the shell is
  the status query, which is not the stop command; and nothing is left detached.
\<close>

theorem stop_already_stopped:
  assumes "checkPresent env Alert s = (True, s1)"
      and "minikubeStatus env (item_show (set_text ''minikube-stopping'' (getStatusBar s1))) =
             (Inr info, s2)"
      and "\<not> running info"
  shows "stopMinikube env s =
           (Inr (), emit (ShowWarningMessage ''Minikube cluster is already stopped.'') s2)
       \<and> shown (trace (snd (stopMinikube env s))) =
           shown (trace s) @ [ShowWarningMessage ''Minikube cluster is already stopped.'']
       \<and> execs (trace (snd (stopMinikube env s))) =
           execs (trace s) @ [statusCommand (binPath (context s2))]
       \<and> statusCommand (binPath (context s2)) \<noteq> binPath (context s2) @ '' stop''
       \<and> detached (snd (stopMinikube env s)) = detached s"
proof -
  have r: "stopMinikube env s =
           (Inr (), emit (ShowWarningMessage ''Minikube cluster is already stopped.'') s2)"
    using assms by (simp add: stopMinikube_def)
  note f1 = checkPresent_frame [OF assms(1)]
  note f2 = minikubeStatus_frame [OF assms(2)]
  note f3 = indicator_frame [of "''minikube-stopping''" s1]
  have sh: "shown (trace (emit (ShowWarningMessage ''Minikube cluster is already stopped.'') s2)) =
           shown (trace s) @ [ShowWarningMessage ''Minikube cluster is already stopped.'']"
    using f1 f2 f3 by (simp add: emit_def shown_append) (simp add: shown_def)
  have ex: "execs (trace (emit (ShowWarningMessage ''Minikube cluster is already stopped.'') s2)) =
           execs (trace s) @ [statusCommand (binPath (context s2))]"
    using f1 f2 f3 by (simp add: emit_def execs_append)
  have de: "detached (emit (ShowWarningMessage ''Minikube cluster is already stopped.'') s2) =
           detached s"
    using f1 f2 f3 by (simp add: emit_def)
  from r sh ex de statusCommand_not_stop show ?thesis by simp
qed

theorem stop_already_stopped_witness:
  "fst (stopMinikube sim_env (create sim_stopped)) = Inr ()
   \<and> shown (trace (snd (stopMinikube sim_env (create sim_stopped)))) =
       [ShowWarningMessage ''Minikube cluster is already stopped.'']
   \<and> execs (trace (snd (stopMinikube sim_env (create sim_stopped)))) = [statusCommand ''minikube'']
   \<and> detached (snd (stopMinikube sim_env (create sim_stopped))) = []"
  using stop_already_stopped [of sim_env "create sim_stopped"
     "snd (checkPresent sim_env Alert (create sim_stopped))"
     "\<lparr>running = False, cluster = JStr [], kubectl = JStr []\<rparr>"
     "snd (minikubeStatus sim_env (item_show (set_text ''minikube-stopping''
            (getStatusBar (snd (checkPresent sim_env Alert (create sim_stopped)))))))"]
  by (simp add: sim_defs minikubeStatus_def statusResult_def statusOf_def strict_neq_def
       item_show_def set_text_def item_update_def getStatusBar_def emit_def shown_def)

section \<open>Presence is cached one way\<close>

text \<open>
  C7. Once the flag \<^verbatim>\<open>binFound\<close> of the context is set, every later call of \<^verbatim>\<open>checkPresent\<close>
  returns true and leaves the whole state as it is, so the locator is not asked again;
  while the flag is not set, each call asks the locator once more, so that a sequence of
  calls after which the flag is still unset has asked it once per call; and no operation
  of the adapter takes a set flag back. With a locator that sets the flag when it answers
  true, a call that returns true is followed only by calls that return true and leave
  the state as it is.
\<close>

theorem presence_cached_one_way:
  "(binFound (context s) \<longrightarrow>
      checkPresent_calls env ms s = (replicate (length ms) True, s))
   \<and> (\<not> binFound (context s) \<longrightarrow>
        locator_calls (trace (snd (checkPresent env m s))) = locator_calls (trace s) + 1)
   \<and> (\<not> binFound (context (snd (checkPresent_calls env ms s))) \<longrightarrow>
        locator_calls (trace (snd (checkPresent_calls env ms s))) =
          locator_calls (trace s) + length ms)
   \<and> (binFound (context s) \<longrightarrow>
        binFound (context (snd (minikubeStatus env s)))
        \<and> binFound (context (snd (isRunnableMinikube env s)))
        \<and> binFound (context (snd (startMinikube env options s)))
        \<and> binFound (context (snd (stopMinikube env s)))
        \<and> binFound (context (settle s)))
   \<and> (caches_success env \<and> fst (checkPresent env m s) \<longrightarrow>
        checkPresent_calls env ms (snd (checkPresent env m s)) =
          (replicate (length ms) True, snd (checkPresent env m s)))"
proof -
  have later: "checkPresent_calls env ms (snd (checkPresent env m s)) =
          (replicate (length ms) True, snd (checkPresent env m s))"
    if "caches_success env" and "fst (checkPresent env m s)"
    using checkPresent_caches [OF that] by (rule checkPresent_calls_found)
  show ?thesis
    using checkPresent_calls_found [of s env ms] checkPresent_locates [of s env m]
      checkPresent_calls_all_locate [of env ms s] minikubeStatus_keeps_found [of s env]
      isRunnable_keeps_found [of s env] startMinikube_keeps_found [of s env options]
      stopMinikube_keeps_found [of s env] settle_context [of s] later
    by simp
qed

theorem presence_cached_one_way_witness:
  "caches_success sim_env
   \<and> checkPresent sim_env Alert (create sim_running) =
       (True, (create sim_running)\<lparr>context := \<lparr>binFound = True, binPath = ''minikube''\<rparr>,
                                    trace := [CheckForBinary True]\<rparr>)
   \<and> checkPresent_calls sim_env [Silent, Alert]
         ((create sim_running)\<lparr>context := \<lparr>binFound = True, binPath = ''minikube''\<rparr>,
                                trace := [CheckForBinary True]\<rparr>) =
       ([True, True],
        (create sim_running)\<lparr>context := \<lparr>binFound = True, binPath = ''minikube''\<rparr>,
                              trace := [CheckForBinary True]\<rparr>)
   \<and> fst (checkPresent_calls sim_env [Alert, Silent, Alert] (create sim_absent)) =
       [False, False, False]
   \<and> locator_calls (trace (snd (checkPresent_calls sim_env [Alert, Silent, Alert]
                                   (create sim_absent)))) = 3"
  using presence_cached_one_way [of "create sim_running" sim_env "[Silent, Alert]" Alert
      "\<lparr>vmDriver = Undefined, additionalFlags = Undefined\<rparr>"]
    presence_cached_one_way [of "create sim_absent" sim_env "[Alert, Silent, Alert]" Alert
      "\<lparr>vmDriver = Undefined, additionalFlags = Undefined\<rparr>"]
  by (simp add: sim_defs locator_calls_def caches_success_def)

section \<open>Runnable\<close>

text \<open>
  C8. When the presence check fails, \<^verbatim>\<open>isRunnableMinikube\<close> returns the failure
  \<^verbatim>\<open>Minikube is not installed\<close> and gives no command to the shell. When it succeeds and the
  \<^verbatim>\<open>help\<close> command settles with a result, that command is the only one given to the shell,
  and the answer is a success exactly when the exit code is 0, whatever stdout and
  stderr hold.
\<close>

theorem runnable_by_exit_code:
  "(checkPresent env Alert s = (False, s1) \<longrightarrow>
      isRunnableMinikube env s = (Inr (Failed [''Minikube is not installed'']), s1)
      \<and> execs (trace s1) = execs (trace s))
   \<and> (checkPresent env Alert s = (True, s1)
        \<and> exec env (binPath (context s1) @ '' help'') s1 = (Inr sr, s2) \<longrightarrow>
        isRunnableMinikube env s = (Inr (fromShellExitCodeOnly env sr), s2)
        \<and> (succeeded (fromShellExitCodeOnly env sr) \<longleftrightarrow> code sr = 0)
        \<and> succeeded (fromShellExitCodeOnly env (sr\<lparr>stdout := out, stderr := err\<rparr>)) =
            succeeded (fromShellExitCodeOnly env sr)
        \<and> execs (trace s2) = execs (trace s) @ [binPath (context s1) @ '' help''])"
proof -
  have a: "isRunnableMinikube env s = (Inr (Failed [''Minikube is not installed'']), s1)
      \<and> execs (trace s1) = execs (trace s)"
    if "checkPresent env Alert s = (False, s1)"
    using that checkPresent_frame [OF that] by (simp add: isRunnableMinikube_def)
  have b: "isRunnableMinikube env s = (Inr (fromShellExitCodeOnly env sr), s2)
        \<and> execs (trace s2) = execs (trace s) @ [binPath (context s1) @ '' help'']"
    if "checkPresent env Alert s = (True, s1)"
      and "exec env (binPath (context s1) @ '' help'') s1 = (Inr sr, s2)"
    using that checkPresent_frame [OF that(1)] exec_frame [OF that(2)]
    by (simp add: isRunnableMinikube_def execs_append)
  have c: "(succeeded (fromShellExitCodeOnly env sr) \<longleftrightarrow> code sr = 0)
        \<and> succeeded (fromShellExitCodeOnly env (sr\<lparr>stdout := out, stderr := err\<rparr>)) =
            succeeded (fromShellExitCodeOnly env sr)"
    by (simp add: fromShellExitCodeOnly_def)
  from a b c show ?thesis by blast
qed

theorem runnable_by_exit_code_witness:
  "isRunnableMinikube sim_env (create sim_absent) =
     (Inr (Failed [''Minikube is not installed'']),
      (create sim_absent)\<lparr>trace := [CheckForBinary True]\<rparr>)
   \<and> fst (isRunnableMinikube sim_env (create sim_running)) = Inr (Succeeded 0)
   \<and> fst (isRunnableMinikube sim_env (create sim_crashing)) = Inr (Failed [''out of memory''])
   \<and> execs (trace (snd (isRunnableMinikube sim_env (create sim_running)))) = [''minikube help'']"
  using runnable_by_exit_code [of sim_env "create sim_absent"
      "(create sim_absent)\<lparr>trace := [CheckForBinary True]\<rparr>"
      "\<lparr>code = 0, stdout = [], stderr = []\<rparr>" "create sim_absent" "[]" "[]"]
    runnable_by_exit_code [of sim_env "create sim_running"
      "snd (checkPresent sim_env Alert (create sim_running))"
      "\<lparr>code = 0, stdout = [], stderr = []\<rparr>"
      "snd (exec sim_env ''minikube help'' (snd (checkPresent sim_env Alert (create sim_running))))"
      "[]" "[]"]
    runnable_by_exit_code [of sim_env "create sim_crashing"
      "snd (checkPresent sim_env Alert (create sim_crashing))"
      "\<lparr>code = 1, stdout = [], stderr = ''out of memory''\<rparr>"
      "snd (exec sim_env ''minikube help'' (snd (checkPresent sim_env Alert (create sim_crashing))))"
      "[]" "[]"]
  by (simp add: sim_defs fromShellExitCodeOnly_def)

section \<open>What the caller of start and stop can observe\<close>




section \<open>Start: options left out\<close>

text \<open>
  C10. An \<^verbatim>\<open>additionalFlags\<close> that is \<^verbatim>\<open>undefined\<close>, \<^verbatim>\<open>null\<close> or empty gives the flags and the
  command that the empty string gives. When \<^verbatim>\<open>vmDriver\<close> is \<^verbatim>\<open>undefined\<close>, \<^verbatim>\<open>null\<close> or empty
  as well, the flags are empty and the command is the binary path, two spaces and
  \<^verbatim>\<open>start\<close>; that is the command \<^verbatim>\<open>startMinikube\<close> then gives to the shell, when the binary is
  present and the precheck reports a cluster that is not running.
\<close>

theorem start_absent_flags:
  "(additionalFlags options \<in> {Undefined, Null, Given []} \<longrightarrow>
      startFlags options = startFlags (options\<lparr>additionalFlags := Given []\<rparr>)
      \<and> startCommand bin options = startCommand bin (options\<lparr>additionalFlags := Given []\<rparr>))
   \<and> (additionalFlags options \<in> {Undefined, Null, Given []}
        \<and> vmDriver options \<in> {Undefined, Null, Given []} \<longrightarrow>
        startFlags options = [] \<and> startCommand bin options = bin @ ''  start'')
   \<and> (checkPresent env Alert s = (True, s1)
        \<and> minikubeStatus env (item_show (set_text ''minikube-starting'' (getStatusBar s1))) =
             (Inr info, s2)
        \<and> \<not> running info
        \<and> additionalFlags options \<in> {Undefined, Null, Given []}
        \<and> vmDriver options \<in> {Undefined, Null, Given []} \<longrightarrow>
        execs (trace (snd (startMinikube env options s))) =
          execs (trace s2) @ [binPath (context s2) @ ''  start''])"
proof -
  have a: "startFlags options = startFlags (options\<lparr>additionalFlags := Given []\<rparr>)"
    if "additionalFlags options \<in> {Undefined, Null, Given []}"
    using that by (auto simp: startFlags_def)
  have b: "startFlags options = []"
    if "additionalFlags options \<in> {Undefined, Null, Given []}"
      and "vmDriver options \<in> {Undefined, Null, Given []}"
    using that by (auto simp: startFlags_def)
  have c: "execs (trace (snd (startMinikube env options s))) =
          execs (trace s2) @ [startCommand (binPath (context s2)) options]"
    if "checkPresent env Alert s = (True, s1)"
      and "minikubeStatus env (item_show (set_text ''minikube-starting'' (getStatusBar s1))) =
             (Inr info, s2)"
      and "\<not> running info"
    using that by (simp add: startMinikube_def exec_def execs_append split: prod.splits)
  from a b c show ?thesis by (auto simp: startCommand_def)
qed

theorem start_absent_flags_witness:
  "startCommand ''minikube'' \<lparr>vmDriver = Undefined, additionalFlags = Null\<rparr> = ''minikube  start''
   \<and> execs (trace (snd (startMinikube sim_env \<lparr>vmDriver = Undefined, additionalFlags = Null\<rparr>
                           (create sim_stopped)))) =
       [statusCommand ''minikube'', ''minikube  start'']"
  using start_absent_flags [of "\<lparr>vmDriver = Undefined, additionalFlags = Null\<rparr>" "''minikube''"
     sim_env "create sim_stopped" "snd (checkPresent sim_env Alert (create sim_stopped))"
     "\<lparr>running = False, cluster = JStr [], kubectl = JStr []\<rparr>"
     "snd (minikubeStatus sim_env (item_show (set_text ''minikube-starting''
            (getStatusBar (snd (checkPresent sim_env Alert (create sim_stopped)))))))"]
  by (simp add: sim_defs minikubeStatus_def statusResult_def statusOf_def strict_neq_def
       item_show_def set_text_def item_update_def getStatusBar_def startCommand_def
       startFlags_def)

end
